theory Spec2Isabelle
  imports Main
begin

section \<open>Values, errors and actions\<close>

text \<open>
  Values that travel between the test runner and the app are JSON values; \<open>JUndefined\<close>
  is JavaScript's \<open>undefined\<close>, which a field that was never assigned reads as.
  Numbers are kept as integers: the client only tests them for truthiness.
\<close>

datatype json =
    JUndefined
  | JNull
  | JBool bool
  | JNum int
  | JStr string
  | JArr "json list"
  | JObj "(string \<times> json) list"

text \<open>JavaScript's truthiness, as \<open>if (x)\<close> and \<open>!x\<close> read a value.\<close>

fun truthy :: "json \<Rightarrow> bool" where
  "truthy JUndefined = False"
| "truthy JNull = False"
| "truthy (JBool b) = b"
| "truthy (JNum n) = (n \<noteq> 0)"
| "truthy (JStr s) = (s \<noteq> [])"
| "truthy (JArr xs) = True"
| "truthy (JObj kvs) = True"

text \<open>
  What a \<open>throw\<close> or a rejected promise carries: an Error object (name, message, stack
  lines) or any other value, such as the error detail of a crash notice.
\<close>

datatype frame = Internal string | External string

datatype exn =
    JsError string string "frame list"
  | Thrown json

text \<open>
  Reading a property named \<open>k\<close> of a parsed reply. \<open>undefined.k\<close> and \<open>null.k\<close> throw a
  TypeError; an object yields its own property or \<open>undefined\<close>. The client reads only
  \<open>params\<close> and \<open>errorDetails\<close>, names that no primitive and no array carries.
\<close>

fun get_prop :: "json \<Rightarrow> string \<Rightarrow> exn + json" where
  "get_prop JUndefined k = Inl (JsError ''TypeError'' k [])"
| "get_prop JNull k = Inl (JsError ''TypeError'' k [])"
| "get_prop (JObj kvs) k = Inr (case map_of kvs k of None \<Rightarrow> JUndefined | Some v \<Rightarrow> v)"
| "get_prop v k = Inr JUndefined"

text \<open>
  An action as the transport sees it: \<open>messageId\<close>, \<open>type\<close> and \<open>params\<close> are the fields
  \<open>dumpPendingRequests\<close> reads from the in-flight messages.
\<close>

record action =
  messageId :: int
  type :: string
  params :: json

text \<open>How a template literal renders an integer: in decimal, with a minus sign.\<close>

definition digit_char :: "nat \<Rightarrow> char" where
  "digit_char d = ''0123456789'' ! d"

fun digits :: "nat \<Rightarrow> string" where
  "digits n = (if n < 10 then [digit_char n] else digits (n div 10) @ [digit_char (n mod 10)])"

declare digits.simps [simp del]

definition show_int :: "int \<Rightarrow> string" where
  "show_int i = (if i < 0 then ''-'' @ digits (nat (- i)) else digits (nat i))"

section \<open>The transport\<close>

text \<open>
  Modelled from the spec: the transport class (AsyncWebSocket) is not among the sources.
  The spec gives its interface: open and close the channel, report whether it is open,
  send a message keyed by a correlation id, reject every pending promise with an error
  detail, clear the in-flight bookkeeping, and expose the in-flight entries.
  \<open>inFlightPromises\<close> lists the pending entries in enumeration order, \<open>sent\<close> the
  actions handed to \<open>send\<close>, and \<open>rejected\<close> the promises rejected by \<open>rejectAll\<close>, each
  with its correlation id and the reason it was rejected with.
\<close>

record transport =
  opened :: bool
  inFlightPromises :: "(int \<times> action) list"
  sent :: "action list"
  rejected :: "(int \<times> json) list"

text \<open>
  Modelled from the spec: the transport as the constructor creates it, not yet open and
  with nothing in flight.
\<close>

definition AsyncWebSocket :: transport where
  "AsyncWebSocket = \<lparr>opened = False, inFlightPromises = [], sent = [], rejected = []\<rparr>"

text \<open>Modelled from the spec: \<open>isOpen()\<close> reports whether the channel is open.\<close>

definition ws_isOpen :: "transport \<Rightarrow> bool" where
  "ws_isOpen w = opened w"

text \<open>Modelled from the spec: \<open>open()\<close>, when it succeeds, opens the channel.\<close>

definition ws_open :: "transport \<Rightarrow> transport" where
  "ws_open w = w\<lparr>opened := True\<rparr>"

text \<open>Modelled from the spec: \<open>close()\<close>, when it succeeds, closes the channel.\<close>

definition ws_close :: "transport \<Rightarrow> transport" where
  "ws_close w = w\<lparr>opened := False\<rparr>"

text \<open>
  Modelled from the spec: \<open>send(payload, correlationId)\<close> records the message as sent and
  as in flight under its correlation id, one entry per id; \<open>ws_settle\<close> is the entry
  leaving the bookkeeping when its promise is resolved or rejected.
\<close>

fun put_entry :: "int \<Rightarrow> action \<Rightarrow> (int \<times> action) list \<Rightarrow> (int \<times> action) list" where
  "put_entry k a [] = [(k, a)]"
| "put_entry k a ((k', a') # es) = (if k = k' then (k, a) # es else (k', a') # put_entry k a es)"

definition ws_send :: "action \<Rightarrow> transport \<Rightarrow> transport" where
  "ws_send a w =
     w\<lparr>sent := sent w @ [a],
       inFlightPromises := put_entry (messageId a) a (inFlightPromises w)\<rparr>"

definition ws_settle :: "int \<Rightarrow> transport \<Rightarrow> transport" where
  "ws_settle k w = w\<lparr>inFlightPromises := filter (\<lambda>e. fst e \<noteq> k) (inFlightPromises w)\<rparr>"

text \<open>
  Modelled from the spec: \<open>rejectAll(errorDetail)\<close> rejects every promise that is pending
  with the given detail and clears the registry.
\<close>

definition ws_rejectAll :: "json \<Rightarrow> transport \<Rightarrow> transport" where
  "ws_rejectAll reason w =
     w\<lparr>rejected := rejected w @ map (\<lambda>e. (fst e, reason)) (inFlightPromises w),
       inFlightPromises := []\<rparr>"

text \<open>
  Modelled from the spec: \<open>resetInFlightPromises()\<close> clears the in-flight bookkeeping and
  settles nothing.
\<close>

definition ws_resetInFlightPromises :: "transport \<Rightarrow> transport" where
  "ws_resetInFlightPromises w = w\<lparr>inFlightPromises := []\<rparr>"

section \<open>What the client takes from outside\<close>

text \<open>
  The action catalogue (\<open>actions\<close>), the error utilities (\<open>errorUtils\<close>) and the JSON
  built-ins are not among the sources, so the client is modelled over any of them:
  \<open>handle\<close> is \<open>action.handle\<close>, the reply interpretation of an action, which returns a
  result or throws; \<open>Login\<close>, \<open>Ready\<close>, \<open>Cleanup\<close>, \<open>CurrentStatus\<close> and \<open>Invoke\<close> are the
  catalogue's constructors that the modelled methods call.
\<close>

record env =
  JSON_parse :: "string \<Rightarrow> exn + json"
  JSON_stringify :: "json \<Rightarrow> string"
  handle :: "action \<Rightarrow> json \<Rightarrow> exn + json"
  asError :: "exn \<Rightarrow> exn"
  removeInternalStackEntries :: "exn \<Rightarrow> exn"
  Login :: "json \<Rightarrow> action"
  Ready :: action
  Cleanup :: "bool \<Rightarrow> action"
  CurrentStatus :: action
  Invoke :: "json \<Rightarrow> action"

text \<open>
  How the promise of \<open>ws.send\<close> settles is decided by the app and the channel: it is
  rejected with an error (\<open>Inl\<close>) or resolved with the raw reply (\<open>Inr\<close>).
\<close>

type_synonym outcome = "exn + string"

section \<open>The client\<close>

text \<open>
  The fields of \<open>Client\<close> as the constructor sets them. \<open>slowInvocationStatusHandler\<close>
  is \<open>null\<close> (\<open>None\<close>) or a timer handle. \<open>timers\<close> and \<open>timer_seq\<close> are the timer table
  of the event loop: the handles scheduled by \<open>setTimeout\<close> that have neither fired nor
  been cleared, and the next fresh handle. Only the client's watchdog schedules timers.
\<close>

record config =
  server :: json
  sessionId :: json

record client =
  isConnected :: bool
  configuration :: config
  ws :: transport
  slowInvocationStatusHandler :: "nat option"
  slowInvocationTimeout :: json
  successfulTestRun :: bool
  pandingAppCrash :: json
  timers :: "nat list"
  timer_seq :: nat

text \<open>
  \<open>constructor(config)\<close>; \<open>timeout\<close> is what the \<open>debug-synchronization\<close> argument reads as.
\<close>

definition Client :: "config \<Rightarrow> json \<Rightarrow> client" where
  "Client config timeout =
     \<lparr>isConnected = False,
      configuration = config,
      ws = AsyncWebSocket,
      slowInvocationStatusHandler = None,
      slowInvocationTimeout = timeout,
      successfulTestRun = True,
      pandingAppCrash = JUndefined,
      timers = [],
      timer_seq = 0\<rparr>"

text \<open>
  The crash listener that the constructor registers for \<open>AppWillTerminateWithError\<close>,
  applied to a parsed notice: it stores \<open>response.params.errorDetails\<close> and has the
  transport reject every pending promise with it.
\<close>

definition onAppWillTerminateWithError :: "json \<Rightarrow> client \<Rightarrow> exn + client" where
  "onAppWillTerminateWithError response c =
     (case get_prop response ''params'' of
        Inl e \<Rightarrow> Inl e
      | Inr ps \<Rightarrow>
          (case get_prop ps ''errorDetails'' of
             Inl e \<Rightarrow> Inl e
           | Inr d \<Rightarrow> Inr (c\<lparr>pandingAppCrash := d, ws := ws_rejectAll d (ws c)\<rparr>)))"

text \<open>
  \<open>sendAction(action)\<close> suspends at \<open>await this.ws.send(...)\<close>. \<open>sendAction_settle\<close> is
  what runs once that promise has settled: a rejection is rethrown, a reply is parsed
  and handed to \<open>action.handle\<close>. \<open>sendAction\<close> is the whole call when nothing else runs
  in between: the action is handed to the transport and its entry leaves the in-flight
  bookkeeping when the promise settles.
\<close>

definition sendAction_settle :: "env \<Rightarrow> action \<Rightarrow> outcome \<Rightarrow> exn + json" where
  "sendAction_settle E a out =
     (case out of
        Inl e \<Rightarrow> Inl e
      | Inr response \<Rightarrow>
          (case JSON_parse E response of
             Inl e \<Rightarrow> Inl e
           | Inr parsedResponse \<Rightarrow> handle E a parsedResponse))"

definition sendAction :: "env \<Rightarrow> action \<Rightarrow> outcome \<Rightarrow> client \<Rightarrow> (exn + json) \<times> client" where
  "sendAction E a out c =
     (sendAction_settle E a out,
      c\<lparr>ws := ws_settle (messageId a) (ws_send a (ws c))\<rparr>)"

text \<open>\<open>connect()\<close>; \<open>opening\<close> is the error \<open>ws.open()\<close> rejects with, if any.\<close>

definition connect :: "env \<Rightarrow> exn option \<Rightarrow> outcome \<Rightarrow> client \<Rightarrow> (exn + unit) \<times> client" where
  "connect E opening out c =
     (case opening of
        Some e \<Rightarrow> (Inl e, c)
      | None \<Rightarrow>
          (case sendAction E (Login E (sessionId (configuration c))) out
                  (c\<lparr>ws := ws_open (ws c)\<rparr>) of
             (Inl e, c1) \<Rightarrow> (Inl e, c1)
           | (Inr r, c1) \<Rightarrow> (Inr (), c1)))"

text \<open>\<open>waitUntilReady()\<close>.\<close>

definition waitUntilReady :: "env \<Rightarrow> outcome \<Rightarrow> client \<Rightarrow> (exn + unit) \<times> client" where
  "waitUntilReady E out c =
     (case sendAction E (Ready E) out c of
        (Inl e, c1) \<Rightarrow> (Inl e, c1)
      | (Inr r, c1) \<Rightarrow> (Inr (), c1\<lparr>isConnected := True\<rparr>))"

text \<open>
  The methods that only await \<open>sendAction\<close> of one action and drop its result
  (\<open>reloadReactNative\<close>, \<open>waitForBackground\<close>, \<open>waitForActive\<close>, \<open>currentStatus\<close>,
  \<open>setSyncSettings\<close>, \<open>shake\<close>, \<open>setOrientation\<close>, \<open>startInstrumentsRecording\<close>,
  \<open>stopInstrumentsRecording\<close>, \<open>deliverPayload\<close>), for the action each one constructs.
\<close>

definition sendOnly :: "env \<Rightarrow> action \<Rightarrow> outcome \<Rightarrow> client \<Rightarrow> (exn + unit) \<times> client" where
  "sendOnly E a out c =
     (case sendAction E a out c of
        (Inl e, c1) \<Rightarrow> (Inl e, c1)
      | (Inr r, c1) \<Rightarrow> (Inr (), c1))"

definition currentStatus :: "env \<Rightarrow> outcome \<Rightarrow> client \<Rightarrow> (exn + unit) \<times> client" where
  "currentStatus E out c = sendOnly E (CurrentStatus E) out c"

text \<open>
  \<open>setTimeout\<close> hands out a fresh handle and schedules it; \<open>clearTimeout\<close> unschedules a
  handle and does nothing for \<open>null\<close> or for a handle that is no longer scheduled.
\<close>

definition clearTimeout :: "nat option \<Rightarrow> client \<Rightarrow> client" where
  "clearTimeout h c =
     (case h of None \<Rightarrow> c | Some t \<Rightarrow> c\<lparr>timers := removeAll t (timers c)\<rparr>)"

text \<open>
  \<open>slowInvocationStatus()\<close>: schedules the watchdog callback and returns its handle.
\<close>

definition slowInvocationStatus :: "client \<Rightarrow> nat \<times> client" where
  "slowInvocationStatus c =
     (timer_seq c, c\<lparr>timers := timers c @ [timer_seq c], timer_seq := Suc (timer_seq c)\<rparr>)"

text \<open>
  The watchdog callback runs in two parts. \<open>watchdog_fire t\<close> is timer \<open>t\<close> firing: if the
  channel is open the callback sends the status query and suspends at
  \<open>await this.currentStatus()\<close>. \<open>watchdog_resume\<close> is the rest, run when that query
  settles: on success the callback schedules itself again and stores the new handle; on
  failure the callback ends there.
\<close>

definition watchdog_fire :: "env \<Rightarrow> nat \<Rightarrow> client \<Rightarrow> client" where
  "watchdog_fire E t c =
     (if t \<in> set (timers c) then
        (let c1 = c\<lparr>timers := removeAll t (timers c)\<rparr>
         in if ws_isOpen (ws c1) then c1\<lparr>ws := ws_send (CurrentStatus E) (ws c1)\<rparr> else c1)
      else c)"

definition watchdog_resume :: "env \<Rightarrow> outcome \<Rightarrow> client \<Rightarrow> client" where
  "watchdog_resume E out c =
     (let c1 = c\<lparr>ws := ws_settle (messageId (CurrentStatus E)) (ws c)\<rparr>
      in case sendAction_settle E (CurrentStatus E) out of
           Inl e \<Rightarrow> c1
         | Inr status \<Rightarrow>
             (case slowInvocationStatus c1 of
                (h, c2) \<Rightarrow> c2\<lparr>slowInvocationStatusHandler := Some h\<rparr>))"

text \<open>
  \<open>cleanup()\<close>; \<open>out\<close> settles the cleanup action's send, when one is made, and
  \<open>closing\<close> is the error \<open>ws.close()\<close> rejects with, if any. \<open>cleanup_close\<close> is the
  last statement: the channel is closed only if it is open, and a close that is
  rejected is rethrown, as nothing catches it. The transport is left as it was by a
  close that fails; nothing below rests on the channel's state after one.
\<close>

definition cleanup_close :: "exn option \<Rightarrow> client \<Rightarrow> (exn + unit) \<times> client" where
  "cleanup_close closing c =
     (if ws_isOpen (ws c) then
        (case closing of
           Some e \<Rightarrow> (Inl e, c)
         | None \<Rightarrow> (Inr (), c\<lparr>ws := ws_close (ws c)\<rparr>))
      else (Inr (), c))"

definition cleanup :: "env \<Rightarrow> outcome \<Rightarrow> exn option \<Rightarrow> client \<Rightarrow> (exn + unit) \<times> client" where
  "cleanup E out closing c =
     (let c0 = clearTimeout (slowInvocationStatusHandler c) c
      in if isConnected c0 \<and> \<not> truthy (pandingAppCrash c0) then
           (if ws_isOpen (ws c0) then
              (case sendAction E (Cleanup E (successfulTestRun c0)) out c0 of
                 (Inl e, c1) \<Rightarrow> (Inl e, c1)
               | (Inr r, c1) \<Rightarrow> cleanup_close closing (c1\<lparr>isConnected := False\<rparr>))
            else cleanup_close closing (c0\<lparr>isConnected := False\<rparr>))
         else cleanup_close closing c0)"

text \<open>
  The argument of \<open>execute\<close>: a ready value, or a function of no arguments that returns
  one or throws.
\<close>

datatype invocation = Value json | Producer "unit \<Rightarrow> exn + json"

text \<open>
  \<open>execute(invocation)\<close> in two parts. \<open>execute_begin\<close> runs up to the \<open>await\<close>: it calls
  a producer (\<open>produce\<close>), arms the watchdog when a timeout is configured, and hands the \<open>Invoke\<close>
  action to the transport; a producer that throws ends the call there, before the
  \<open>try\<close>. \<open>execute_settle\<close> runs when the send has settled: the \<open>catch\<close> clears the
  run-success flag and rethrows the sanitized error, the \<open>finally\<close> clears the timer the
  handle names. \<open>execute\<close> is the whole call when nothing else runs in between.
\<close>

fun produce :: "invocation \<Rightarrow> exn + json" where
  "produce (Producer f) = f ()"
| "produce (Value v) = Inr v"

definition execute_begin :: "env \<Rightarrow> invocation \<Rightarrow> client \<Rightarrow> (exn + action) \<times> client" where
  "execute_begin E arg c =
     (case produce arg of
        Inl e \<Rightarrow> (Inl e, c)
      | Inr v \<Rightarrow>
          (let c1 = (if truthy (slowInvocationTimeout c)
                     then (case slowInvocationStatus c of
                             (h, c') \<Rightarrow> c'\<lparr>slowInvocationStatusHandler := Some h\<rparr>)
                     else c)
           in (Inr (Invoke E v), c1\<lparr>ws := ws_send (Invoke E v) (ws c1)\<rparr>)))"

definition execute_settle :: "env \<Rightarrow> action \<Rightarrow> outcome \<Rightarrow> client \<Rightarrow> (exn + json) \<times> client" where
  "execute_settle E a out c =
     (let c1 = c\<lparr>ws := ws_settle (messageId a) (ws c)\<rparr>
      in case sendAction_settle E a out of
           Inr r \<Rightarrow> (Inr r, clearTimeout (slowInvocationStatusHandler c1) c1)
         | Inl err \<Rightarrow>
             (let c2 = c1\<lparr>successfulTestRun := False\<rparr>
              in (Inl (removeInternalStackEntries E (asError E err)),
                  clearTimeout (slowInvocationStatusHandler c2) c2)))"

definition execute :: "env \<Rightarrow> invocation \<Rightarrow> outcome \<Rightarrow> client \<Rightarrow> (exn + json) \<times> client" where
  "execute E arg out c =
     (case execute_begin E arg c of
        (Inl e, c1) \<Rightarrow> (Inl e, c1)
      | (Inr a, c1) \<Rightarrow> execute_settle E a out c1)"

text \<open>\<open>getPendingCrashAndReset()\<close>: the value returned and the client afterwards.\<close>

definition getPendingCrashAndReset :: "client \<Rightarrow> json \<times> client" where
  "getPendingCrashAndReset c = (pandingAppCrash c, c\<lparr>pandingAppCrash := JUndefined\<rparr>)"

text \<open>
  \<open>dumpPendingRequests({testName})\<close>: the warning handed to \<open>log.warn\<close>, if any, and the
  client afterwards. \<open>testName\<close> is \<open>None\<close> when the caller gives none.
\<close>

definition newline :: char where
  "newline = CHR 0x0A"

definition pending_line :: "env \<Rightarrow> action \<Rightarrow> string" where
  "pending_line E msg =
     [newline] @ ''  (id = '' @ show_int (messageId msg) @ '') '' @ type msg @ '': ''
       @ JSON_stringify E (params msg)"

definition notice :: "string option \<Rightarrow> string" where
  "notice testName =
     (case testName of
        None \<Rightarrow> ''Unresponded network requests might result in timeout errors in Detox tests.''
      | Some n \<Rightarrow>
          (if n \<noteq> []
           then ''That might be the reason why the test '' @ [CHR 0x22] @ n @ [CHR 0x22]
                  @ '' has timed out.''
           else ''Unresponded network requests might result in timeout errors in Detox tests.''))"

definition pending_messages :: "client \<Rightarrow> action list" where
  "pending_messages c =
     filter (\<lambda>m. type m \<noteq> ''currentStatus'') (map snd (inFlightPromises (ws c)))"

definition dumpPendingRequests :: "env \<Rightarrow> string option \<Rightarrow> client \<Rightarrow> string option \<times> client" where
  "dumpPendingRequests E testName c =
     (let messages = pending_messages c
      in if messages = [] then (None, c)
         else
           (let dump = foldl (\<lambda>d msg. d @ pending_line E msg)
                         ''App has not responded to the network requests below:'' messages
            in (Some (dump @ [newline, newline] @ notice testName @ [newline]),
                c\<lparr>ws := ws_resetInFlightPromises (ws c)\<rparr>)))"

section \<open>Runs of the client\<close>

text \<open>
  What can happen to a client, one entry per public method, per unsolicited notice and
  per step of the event loop, each with what the outside decides about it; the channel
  can also be torn down from outside (\<open>ChannelCloses\<close>).
\<close>

datatype call =
    DoConnect "exn option" outcome
  | DoWaitUntilReady outcome
  | DoSend action outcome
  | DoCleanup outcome "exn option"
  | DoExecute invocation outcome
  | ExecuteBegins invocation
  | ExecuteSettles action outcome
  | DoGetPendingCrashAndReset
  | DoDumpPendingRequests "string option"
  | CrashNotice json
  | TimerFires nat
  | StatusSettles outcome
  | ChannelCloses

fun perform :: "env \<Rightarrow> client \<Rightarrow> call \<Rightarrow> client" where
  "perform E c (DoConnect opening out) = snd (connect E opening out c)"
| "perform E c (DoWaitUntilReady out) = snd (waitUntilReady E out c)"
| "perform E c (DoSend a out) = snd (sendOnly E a out c)"
| "perform E c (DoCleanup out closing) = snd (cleanup E out closing c)"
| "perform E c (DoExecute arg out) = snd (execute E arg out c)"
| "perform E c (ExecuteBegins arg) = snd (execute_begin E arg c)"
| "perform E c (ExecuteSettles a out) = snd (execute_settle E a out c)"
| "perform E c DoGetPendingCrashAndReset = snd (getPendingCrashAndReset c)"
| "perform E c (DoDumpPendingRequests testName) = snd (dumpPendingRequests E testName c)"
| "perform E c (CrashNotice response) =
     (case onAppWillTerminateWithError response c of Inl e \<Rightarrow> c | Inr c' \<Rightarrow> c')"
| "perform E c (TimerFires t) = watchdog_fire E t c"
| "perform E c (StatusSettles out) = watchdog_resume E out c"
| "perform E c ChannelCloses = c\<lparr>ws := ws_close (ws c)\<rparr>"

fun is_crash_notice :: "call \<Rightarrow> bool" where
  "is_crash_notice (CrashNotice response) = True"
| "is_crash_notice k = False"

fun is_crash_poll :: "call \<Rightarrow> bool" where
  "is_crash_poll DoGetPendingCrashAndReset = True"
| "is_crash_poll k = False"

section \<open>An instance of the outside, for the examples\<close>

text \<open>
  The theorems below hold for every parser, renderer, action catalogue and error
  utility. The examples need one of each.
\<close>

text \<open>
  \<open>JSON.stringify\<close> for values whose strings need no escapes: an \<open>undefined\<close> element of
  an array is rendered as \<open>null\<close>, an \<open>undefined\<close> property of an object is left out.
\<close>

fun commas :: "string list \<Rightarrow> string" where
  "commas [] = []"
| "commas [x] = x"
| "commas (x # y # ys) = x @ '','' @ commas (y # ys)"

definition quoted :: "string \<Rightarrow> string" where
  "quoted s = [CHR 0x22] @ s @ [CHR 0x22]"

fun stringify :: "json \<Rightarrow> string" where
  "stringify JUndefined = ''undefined''"
| "stringify JNull = ''null''"
| "stringify (JBool b) = (if b then ''true'' else ''false'')"
| "stringify (JNum n) = show_int n"
| "stringify (JStr s) = quoted s"
| "stringify (JArr xs) =
     ''['' @ commas (map (\<lambda>x. if x = JUndefined then ''null'' else stringify x) xs) @ '']''"
| "stringify (JObj kvs) =
     ''{'' @ commas (map (\<lambda>kv. quoted (fst kv) @ '':'' @ stringify (snd kv))
                      (filter (\<lambda>kv. snd kv \<noteq> JUndefined) kvs)) @ ''}''"

text \<open>\<open>JSON.parse\<close> on the two replies the examples use; any other text is refused.\<close>

definition sample_parse :: "string \<Rightarrow> exn + json" where
  "sample_parse s =
     (if s = ''{}'' then Inr (JObj [])
      else if s = ''null'' then Inr JNull
      else Inl (JsError ''SyntaxError'' s []))"

text \<open>
  Modelled from the spec: the action catalogue is not among the sources. An action's
  reply interpretation returns a result or throws when the reply indicates an app-side
  error; here a \<open>null\<close> reply is the error and any other reply is the result.
\<close>

fun sample_handle :: "action \<Rightarrow> json \<Rightarrow> exn + json" where
  "sample_handle a JNull =
     Inl (JsError ''Error'' ''app-side error'' [Internal ''sendAction'', External ''test''])"
| "sample_handle a r = Inr r"

text \<open>
  Modelled from the spec: the error utilities are not among the sources. \<open>execute\<close>
  rethrows a sanitized error, with the stack frames internal to the orchestration layer
  stripped; \<open>asError\<close> is taken to return an Error as it is and to wrap any other value
  in one.
\<close>

fun sample_asError :: "exn \<Rightarrow> exn" where
  "sample_asError (JsError n m st) = JsError n m st"
| "sample_asError (Thrown (JStr s)) = JsError ''Error'' s []"
| "sample_asError (Thrown v) = JsError ''Error'' (stringify v) []"

fun is_external :: "frame \<Rightarrow> bool" where
  "is_external (External l) = True"
| "is_external (Internal l) = False"

fun sample_removeInternalStackEntries :: "exn \<Rightarrow> exn" where
  "sample_removeInternalStackEntries (JsError n m st) = JsError n m (filter is_external st)"
| "sample_removeInternalStackEntries (Thrown v) = Thrown v"

text \<open>
  Modelled from the spec: the action catalogue is not among the sources. The spec names
  the kinds login, ready, cleanup, current-status and invoke, and has the cleanup action
  parameterized by the run-success flag; the status kind is spelled as
  \<open>dumpPendingRequests\<close> spells it, and each kind has an id of its own.
\<close>

definition sample_env :: env where
  "sample_env =
     \<lparr>JSON_parse = sample_parse,
      JSON_stringify = stringify,
      handle = sample_handle,
      asError = sample_asError,
      removeInternalStackEntries = sample_removeInternalStackEntries,
      Login = (\<lambda>sessionId. \<lparr>messageId = 1, type = ''login'', params = sessionId\<rparr>),
      Ready = \<lparr>messageId = 2, type = ''ready'', params = JObj []\<rparr>,
      Cleanup = (\<lambda>successful. \<lparr>messageId = 3, type = ''cleanup'', params = JBool successful\<rparr>),
      CurrentStatus = \<lparr>messageId = 4, type = ''currentStatus'', params = JObj []\<rparr>,
      Invoke = (\<lambda>v. \<lparr>messageId = 5, type = ''invoke'', params = v\<rparr>)\<rparr>"

text \<open>
  The clients and events of the examples: a client that has connected and completed the
  ready handshake, with a watchdog interval configured; a crash notice; the same client
  with an invocation pending; and the client after the crash notice has reached it.
\<close>

definition sample_config :: config where
  "sample_config = \<lparr>server = JStr ''ws://localhost:8099'', sessionId = JStr ''s1''\<rparr>"

definition ready_client :: client where
  "ready_client =
     foldl (perform sample_env) (Client sample_config (JNum 500))
       [DoConnect None (Inr ''{}''), DoWaitUntilReady (Inr ''{}'')]"

definition crash_notice :: json where
  "crash_notice =
     JObj [(''type'', JStr ''AppWillTerminateWithError''),
           (''params'', JObj [(''errorDetails'', JStr ''SIGSEGV'')])]"

definition busy_client :: client where
  "busy_client = perform sample_env ready_client (ExecuteBegins (Value (JStr ''tap'')))"

definition crashed_client :: client where
  "crashed_client = perform sample_env ready_client (CrashNotice crash_notice)"

definition failing_producer :: "unit \<Rightarrow> exn + json" where
  "failing_producer u =
     Inl (JsError ''Error'' ''no such matcher'' [Internal ''invoke'', External ''test''])"

text \<open>
  An in-flight set with a login, a status query and an invocation pending, and one with
  status queries only.
\<close>

definition three_pending :: client where
  "three_pending =
     ready_client\<lparr>ws := ws_send (Invoke sample_env (JStr ''tap''))
                          (ws_send (CurrentStatus sample_env)
                             (ws_send (Login sample_env (JStr ''s1'')) (ws ready_client)))\<rparr>"

definition status_pending :: client where
  "status_pending = ready_client\<lparr>ws := ws_send (CurrentStatus sample_env) (ws ready_client)\<rparr>"

text \<open>
  A run in which the watchdog fires while an invocation is pending, the invocation's
  reply arrives before the reply to the status query, and the status reply arrives last.
\<close>

definition watchdog_race :: "call list" where
  "watchdog_race =
     [ExecuteBegins (Value (JStr ''tap'')),
      TimerFires 0,
      ExecuteSettles (Invoke sample_env (JStr ''tap'')) (Inr ''{}''),
      StatusSettles (Inr ''{}'')]"

section \<open>Facts about the operations\<close>

lemmas method_defs =
  connect_def waitUntilReady_def sendOnly_def currentStatus_def cleanup_def cleanup_close_def
  execute_def execute_begin_def execute_settle_def sendAction_def sendAction_settle_def
  getPendingCrashAndReset_def dumpPendingRequests_def pending_messages_def
  onAppWillTerminateWithError_def watchdog_fire_def watchdog_resume_def
  slowInvocationStatus_def clearTimeout_def

lemmas transport_defs =
  AsyncWebSocket_def ws_isOpen_def ws_open_def ws_close_def ws_send_def ws_settle_def
  ws_rejectAll_def ws_resetInFlightPromises_def

lemmas example_defs =
  sample_config_def ready_client_def crash_notice_def busy_client_def crashed_client_def failing_producer_def
  three_pending_def status_pending_def watchdog_race_def Client_def sample_env_def
  sample_parse_def

text \<open>Only a crash notice stores a pending crash.\<close>

lemma perform_keeps_no_crash:
  "\<not> is_crash_notice k \<Longrightarrow> pandingAppCrash c = JUndefined \<Longrightarrow>
   pandingAppCrash (perform E c k) = JUndefined"
  by (cases k) (auto simp: method_defs Let_def split: sum.splits option.splits if_splits)

lemma run_keeps_no_crash:
  "\<forall>k \<in> set calls. \<not> is_crash_notice k \<Longrightarrow> pandingAppCrash c = JUndefined \<Longrightarrow>
   pandingAppCrash (foldl (perform E) c calls) = JUndefined"
proof (induction calls arbitrary: c)
  case Nil
  then show ?case by simp
next
  case (Cons k calls)
  from Cons.prems have "pandingAppCrash (perform E c k) = JUndefined"
    by (simp add: perform_keeps_no_crash)
  with Cons show ?case by simp
qed

text \<open>Only a crash notice and \<open>getPendingCrashAndReset\<close> change the pending crash.\<close>

lemma perform_keeps_crash:
  "\<not> is_crash_notice k \<Longrightarrow> \<not> is_crash_poll k \<Longrightarrow>
   pandingAppCrash (perform E c k) = pandingAppCrash c"
  by (cases k) (auto simp: method_defs Let_def split: sum.splits option.splits if_splits)

lemma run_keeps_crash:
  "\<forall>k \<in> set calls. \<not> is_crash_notice k \<and> \<not> is_crash_poll k \<Longrightarrow>
   pandingAppCrash (foldl (perform E) c calls) = pandingAppCrash c"
proof (induction calls arbitrary: c)
  case Nil
  then show ?case by simp
next
  case (Cons k calls)
  from Cons.prems have "pandingAppCrash (perform E c k) = pandingAppCrash c"
    by (simp add: perform_keeps_crash)
  with Cons show ?case by simp
qed

text \<open>Only a ready handshake that succeeds sets the connected flag.\<close>

lemma perform_connects:
  "\<not> isConnected c \<Longrightarrow> isConnected (perform E c k) \<Longrightarrow>
   \<exists>out r. k = DoWaitUntilReady out \<and> sendAction_settle E (Ready E) out = Inr r"
  by (cases k) (auto simp: method_defs Let_def split: sum.splits option.splits if_splits)

text \<open>Nothing sets the run-success flag back to true.\<close>

lemma perform_keeps_failed:
  "\<not> successfulTestRun c \<Longrightarrow> \<not> successfulTestRun (perform E c k)"
  by (cases k) (auto simp: method_defs Let_def split: sum.splits option.splits if_splits)





lemma cleanup_sends:
  assumes "isConnected c" and "\<not> truthy (pandingAppCrash c)" and "ws_isOpen (ws c)"
  shows "sent (ws (snd (cleanup E out closing c)))
           = sent (ws c) @ [Cleanup E (successfulTestRun c)]"
  using assms
  by (auto simp: method_defs transport_defs Let_def split: sum.splits option.splits)

lemma cleanup_send_succeeds:
  assumes "isConnected c" and "\<not> truthy (pandingAppCrash c)" and "ws_isOpen (ws c)"
    and "sendAction_settle E (Cleanup E (successfulTestRun c)) out = Inr r"
  shows "\<not> isConnected (snd (cleanup E out closing c))"
  using assms
  by (auto simp: cleanup_def cleanup_close_def sendAction_def clearTimeout_def transport_defs
      Let_def split: sum.splits option.splits)

lemma cleanup_send_fails:
  assumes "isConnected c" and "\<not> truthy (pandingAppCrash c)" and "ws_isOpen (ws c)"
    and "sendAction_settle E (Cleanup E (successfulTestRun c)) out = Inl e"
  shows "fst (cleanup E out closing c) = Inl e \<and> isConnected (snd (cleanup E out closing c))"
  using assms
  by (auto simp: cleanup_def cleanup_close_def sendAction_def clearTimeout_def transport_defs
      Let_def split: sum.splits option.splits)

lemma cleanup_completed_connected:
  "fst (cleanup E out closing c) = Inr () \<Longrightarrow>
   isConnected (snd (cleanup E out closing c)) = (isConnected c \<and> truthy (pandingAppCrash c))"
  by (auto simp: cleanup_def cleanup_close_def sendAction_def clearTimeout_def transport_defs
      Let_def split: sum.splits option.splits if_splits)

text \<open>\<open>execute\<close>, by what the producer and the dispatch do.\<close>

lemma execute_producer_throws:
  "produce arg = Inl e \<Longrightarrow> execute E arg out c = (Inl e, c)"
  by (simp add: execute_def execute_begin_def)

lemma execute_resolves:
  "produce arg = Inr v \<Longrightarrow> sendAction_settle E (Invoke E v) out = Inr r \<Longrightarrow>
   fst (execute E arg out c) = Inr r
   \<and> successfulTestRun (snd (execute E arg out c)) = successfulTestRun c"
  by (auto simp: execute_def execute_begin_def execute_settle_def slowInvocationStatus_def
      clearTimeout_def Let_def split: option.splits)

lemma execute_rejects:
  "produce arg = Inr v \<Longrightarrow> sendAction_settle E (Invoke E v) out = Inl err \<Longrightarrow>
   fst (execute E arg out c) = Inl (removeInternalStackEntries E (asError E err))
   \<and> \<not> successfulTestRun (snd (execute E arg out c))"
  by (auto simp: execute_def execute_begin_def execute_settle_def slowInvocationStatus_def
      clearTimeout_def Let_def split: option.splits)

lemma execute_keeps_cleanup_guards:
  "isConnected (snd (execute E arg out c)) = isConnected c
   \<and> pandingAppCrash (snd (execute E arg out c)) = pandingAppCrash c"
  by (auto simp: execute_def execute_begin_def execute_settle_def slowInvocationStatus_def
      clearTimeout_def transport_defs Let_def split: sum.splits option.splits)

lemma execute_sent:
  "produce arg = Inr v \<Longrightarrow> sent (ws (snd (execute E arg out c))) = sent (ws c) @ [Invoke E v]"
  by (auto simp: execute_def execute_begin_def execute_settle_def slowInvocationStatus_def
      clearTimeout_def transport_defs Let_def split: sum.splits option.splits)

text \<open>
  When nothing runs between the two parts of \<open>execute\<close>, the timer it armed is cleared
  again: the scheduled timers are those scheduled before the call.
\<close>

lemma execute_disarms:
  "truthy (slowInvocationTimeout c) \<Longrightarrow> timer_seq c \<notin> set (timers c) \<Longrightarrow>
   timers (snd (execute E arg out c)) = timers c"
  by (auto simp: execute_def execute_begin_def execute_settle_def slowInvocationStatus_def
      clearTimeout_def Let_def split: sum.splits option.splits)

text \<open>The dump's loop appends one line per message.\<close>

lemma dump_lines:
  "foldl (\<lambda>d msg. d @ pending_line E msg) h ms = h @ concat (map (pending_line E) ms)"
  by (induction ms arbitrary: h) simp_all

section \<open>Crash notices\<close>

text \<open>
  C1: once a crash notice has reached the crash listener, every promise that was pending
  in the transport is rejected with the error detail of that notice and nothing is left
  in flight. Whatever the client does after the crash and before it is polled (the
  rejected invocations settling, a cleanup, a dump, a timer firing),
  \<open>getPendingCrashAndReset\<close> returns that detail on its first call, and returns none on
  every later call, whatever else the client does in between, as long as no further
  crash notice arrives.
\<close>

theorem crash_notice_rejects_pending_and_is_reported_once:
  assumes "get_prop response ''params'' = Inr ps"
    and "get_prop ps ''errorDetails'' = Inr d"
  shows "\<exists>c'. onAppWillTerminateWithError response c = Inr c'
           \<and> (\<forall>e \<in> set (inFlightPromises (ws c)). (fst e, d) \<in> set (rejected (ws c')))
           \<and> inFlightPromises (ws c') = []
           \<and> (\<forall>before. (\<forall>k \<in> set before. \<not> is_crash_notice k \<and> \<not> is_crash_poll k) \<longrightarrow>
                 fst (getPendingCrashAndReset (foldl (perform E) c' before)) = d
                 \<and> (\<forall>later. (\<forall>k \<in> set later. \<not> is_crash_notice k) \<longrightarrow>
                       fst (getPendingCrashAndReset
                              (foldl (perform E)
                                 (snd (getPendingCrashAndReset (foldl (perform E) c' before)))
                                 later))
                       = JUndefined))"
proof -
  let ?c' = "c\<lparr>pandingAppCrash := d, ws := ws_rejectAll d (ws c)\<rparr>"
  have listener: "onAppWillTerminateWithError response c = Inr ?c'"
    using assms by (simp add: onAppWillTerminateWithError_def)
  have rejected: "\<forall>e \<in> set (inFlightPromises (ws c)). (fst e, d) \<in> set (rejected (ws ?c'))"
    by (auto simp: ws_rejectAll_def)
  have emptied: "inFlightPromises (ws ?c') = []"
    by (simp add: ws_rejectAll_def)
  have first: "fst (getPendingCrashAndReset (foldl (perform E) ?c' before)) = d"
    if "\<forall>k \<in> set before. \<not> is_crash_notice k \<and> \<not> is_crash_poll k" for before
  proof -
    from that have "pandingAppCrash (foldl (perform E) ?c' before) = pandingAppCrash ?c'"
      by (rule run_keeps_crash)
    then show ?thesis by (simp add: getPendingCrashAndReset_def)
  qed
  have later: "fst (getPendingCrashAndReset
                      (foldl (perform E) (snd (getPendingCrashAndReset c1)) calls)) = JUndefined"
    if "\<forall>k \<in> set calls. \<not> is_crash_notice k" for calls c1
  proof -
    have "pandingAppCrash (snd (getPendingCrashAndReset c1)) = JUndefined"
      by (simp add: getPendingCrashAndReset_def)
    with that have "pandingAppCrash
        (foldl (perform E) (snd (getPendingCrashAndReset c1)) calls) = JUndefined"
      by (rule run_keeps_no_crash)
    then show ?thesis by (simp add: getPendingCrashAndReset_def)
  qed
  from listener rejected emptied first later show ?thesis by blast
qed

theorem crash_notice_rejects_pending_and_is_reported_once_witness:
  "\<exists>c'. onAppWillTerminateWithError crash_notice busy_client = Inr c'
     \<and> (5, JStr ''SIGSEGV'') \<in> set (rejected (ws c'))
     \<and> inFlightPromises (ws c') = []
     \<and> fst (getPendingCrashAndReset
              (foldl (perform sample_env) c'
                 [ExecuteSettles (Invoke sample_env (JStr ''tap''))
                    (Inl (Thrown (JStr ''SIGSEGV''))),
                  DoCleanup (Inr ''{}'') None])) = JStr ''SIGSEGV''
     \<and> fst (getPendingCrashAndReset
              (foldl (perform sample_env)
                 (snd (getPendingCrashAndReset
                    (foldl (perform sample_env) c'
                       [ExecuteSettles (Invoke sample_env (JStr ''tap''))
                          (Inl (Thrown (JStr ''SIGSEGV''))),
                        DoCleanup (Inr ''{}'') None])))
                 [DoGetPendingCrashAndReset, DoDumpPendingRequests None])) = JUndefined"
proof -
  let ?before = "[ExecuteSettles (Invoke sample_env (JStr ''tap''))
                    (Inl (Thrown (JStr ''SIGSEGV''))),
                  DoCleanup (Inr ''{}'') None]"
  let ?later = "[DoGetPendingCrashAndReset, DoDumpPendingRequests None]"
  have params: "get_prop crash_notice ''params'' = Inr (JObj [(''errorDetails'', JStr ''SIGSEGV'')])"
    by (simp add: crash_notice_def)
  have detail: "get_prop (JObj [(''errorDetails'', JStr ''SIGSEGV'')]) ''errorDetails''
                  = Inr (JStr ''SIGSEGV'')"
    by simp
  have pending: "inFlightPromises (ws busy_client)
                   = [(5, \<lparr>messageId = 5, type = ''invoke'', params = JStr ''tap''\<rparr>)]"
    by (simp add: example_defs method_defs transport_defs)
  have before: "\<forall>k \<in> set ?before. \<not> is_crash_notice k \<and> \<not> is_crash_poll k"
    by simp
  have later: "\<forall>k \<in> set ?later. \<not> is_crash_notice k"
    by simp
  from crash_notice_rejects_pending_and_is_reported_once
         [OF params detail, of busy_client sample_env]
  obtain c' where c': "onAppWillTerminateWithError crash_notice busy_client = Inr c'"
    "\<forall>e \<in> set (inFlightPromises (ws busy_client)). (fst e, JStr ''SIGSEGV'') \<in> set (rejected (ws c'))"
    "inFlightPromises (ws c') = []"
    "\<forall>before. (\<forall>k \<in> set before. \<not> is_crash_notice k \<and> \<not> is_crash_poll k) \<longrightarrow>
        fst (getPendingCrashAndReset (foldl (perform sample_env) c' before)) = JStr ''SIGSEGV''
        \<and> (\<forall>later. (\<forall>k \<in> set later. \<not> is_crash_notice k) \<longrightarrow>
              fst (getPendingCrashAndReset
                     (foldl (perform sample_env)
                        (snd (getPendingCrashAndReset (foldl (perform sample_env) c' before)))
                        later)) = JUndefined)"
    by blast
  from c'(2) pending have "(5, JStr ''SIGSEGV'') \<in> set (rejected (ws c'))"
    by simp
  moreover from c'(4) before
  have polled: "fst (getPendingCrashAndReset (foldl (perform sample_env) c' ?before))
                  = JStr ''SIGSEGV''"
    "\<forall>later. (\<forall>k \<in> set later. \<not> is_crash_notice k) \<longrightarrow>
          fst (getPendingCrashAndReset
                 (foldl (perform sample_env)
                    (snd (getPendingCrashAndReset (foldl (perform sample_env) c' ?before)))
                    later)) = JUndefined"
    by blast+
  from polled(2) later
  have "fst (getPendingCrashAndReset
               (foldl (perform sample_env)
                  (snd (getPendingCrashAndReset (foldl (perform sample_env) c' ?before)))
                  ?later)) = JUndefined"
    by blast
  ultimately show ?thesis using c'(1,3) polled(1) by blast
qed

text \<open>
  C9: \<open>getPendingCrashAndReset\<close> changes the pending-crash field only: the connected flag,
  the run-success flag, the watchdog handle, the scheduled timers and the transport
  (hence the messages sent) are what they were before the call.
\<close>

theorem getPendingCrashAndReset_frame:
  "snd (getPendingCrashAndReset c) = c\<lparr>pandingAppCrash := JUndefined\<rparr>
   \<and> isConnected (snd (getPendingCrashAndReset c)) = isConnected c
   \<and> successfulTestRun (snd (getPendingCrashAndReset c)) = successfulTestRun c
   \<and> slowInvocationStatusHandler (snd (getPendingCrashAndReset c)) = slowInvocationStatusHandler c
   \<and> timers (snd (getPendingCrashAndReset c)) = timers c
   \<and> ws (snd (getPendingCrashAndReset c)) = ws c
   \<and> sent (ws (snd (getPendingCrashAndReset c))) = sent (ws c)"
  by (simp add: getPendingCrashAndReset_def)

section \<open>Cleanup\<close>

text \<open>
  C3, as the code has it: in \<open>cleanup\<close>, when the client is connected, no crash is pending
  and the channel is open, a cleanup action parameterized by the run-success flag is
  handed to the transport. When that exchange succeeds, the connected flag is set to
  false. When it fails, \<open>cleanup\<close> rejects with the failure and the connected flag stays
  true.
\<close>

theorem cleanup_sends_cleanup_action:
  assumes "isConnected c" and "\<not> truthy (pandingAppCrash c)" and "ws_isOpen (ws c)"
  shows "sent (ws (snd (cleanup E out closing c)))
           = sent (ws c) @ [Cleanup E (successfulTestRun c)]
         \<and> (case sendAction_settle E (Cleanup E (successfulTestRun c)) out of
               Inr r \<Rightarrow> \<not> isConnected (snd (cleanup E out closing c))
             | Inl e \<Rightarrow> fst (cleanup E out closing c) = Inl e
                          \<and> isConnected (snd (cleanup E out closing c)))"
proof (cases "sendAction_settle E (Cleanup E (successfulTestRun c)) out")
  case (Inl e)
  with assms show ?thesis
    using cleanup_sends [of c E out closing] cleanup_send_fails [of c E out e closing] by simp
next
  case (Inr r)
  with assms show ?thesis
    using cleanup_sends [of c E out closing] cleanup_send_succeeds [of c E out r closing]
    by simp
qed

theorem cleanup_sends_cleanup_action_witness:
  "sent (ws (snd (cleanup sample_env (Inr ''{}'') None ready_client)))
     = sent (ws ready_client) @ [\<lparr>messageId = 3, type = ''cleanup'', params = JBool True\<rparr>]
   \<and> \<not> isConnected (snd (cleanup sample_env (Inr ''{}'') None ready_client))
   \<and> \<not> isConnected (snd (cleanup sample_env (Inr ''{}'')
                              (Some (JsError ''Error'' ''close failed'' [])) ready_client))"
proof -
  have ready: "isConnected ready_client" "\<not> truthy (pandingAppCrash ready_client)"
    "ws_isOpen (ws ready_client)" "successfulTestRun ready_client"
    by (simp_all add: example_defs method_defs transport_defs)
  have reply: "sendAction_settle sample_env (Cleanup sample_env True) (Inr ''{}'') = Inr (JObj [])"
    by (simp add: sendAction_settle_def sample_env_def sample_parse_def)
  have action: "Cleanup sample_env True = \<lparr>messageId = 3, type = ''cleanup'', params = JBool True\<rparr>"
    by (simp add: sample_env_def)
  from cleanup_sends_cleanup_action [OF ready(1,2,3), of sample_env "Inr ''{}''" None]
       cleanup_sends_cleanup_action [OF ready(1,2,3), of sample_env "Inr ''{}''"
          "Some (JsError ''Error'' ''close failed'' [])"]
       ready(4) reply action
  show ?thesis by simp
qed

text \<open>
  C3 as the spec words it, that the connected flag is cleared whether the send
  succeeds or fails, does not hold: when the cleanup action's send is rejected,
  \<open>cleanup\<close> rejects and the flag is still true.
\<close>

theorem cleanup_send_failure_counterexample:
  "fst (cleanup sample_env (Inl (JsError ''Error'' ''socket hang up'' [])) None ready_client)
     = Inl (JsError ''Error'' ''socket hang up'' [])
   \<and> isConnected (snd (cleanup sample_env (Inl (JsError ''Error'' ''socket hang up'' []))
                          None ready_client))"
  by (simp add: example_defs method_defs transport_defs)




text \<open>
  C5, as the code has it: the connected flag is false at construction; an operation of
  the client makes it true only if it is \<open>waitUntilReady\<close> and its ready action succeeded;
  and after a completed \<open>cleanup\<close> it is false, whether the channel is open or closed,
  unless the client was connected with a crash pending when \<open>cleanup\<close> was called, in
  which case \<open>cleanup\<close> leaves it true.
\<close>

theorem connected_flag_lifecycle:
  "\<not> isConnected (Client config timeout)
   \<and> (\<not> isConnected c \<and> isConnected (perform E c k) \<longrightarrow>
        (\<exists>out r. k = DoWaitUntilReady out \<and> sendAction_settle E (Ready E) out = Inr r))
   \<and> (fst (cleanup E out closing c) = Inr () \<longrightarrow>
        isConnected (snd (cleanup E out closing c)) = (isConnected c \<and> truthy (pandingAppCrash c)))"
  using perform_connects [of c E k] cleanup_completed_connected [of E out closing c]
  by (simp add: Client_def)

theorem connected_flag_lifecycle_witness:
  "\<not> isConnected (Client sample_config (JNum 500))
   \<and> \<not> isConnected (perform sample_env (Client sample_config (JNum 500)) (DoConnect None (Inr ''{}'')))
   \<and> isConnected (perform sample_env
                    (perform sample_env (Client sample_config (JNum 500)) (DoConnect None (Inr ''{}'')))
                    (DoWaitUntilReady (Inr ''{}'')))
   \<and> sendAction_settle sample_env (Ready sample_env) (Inr ''{}'') = Inr (JObj [])
   \<and> fst (cleanup sample_env (Inr ''{}'') None ready_client) = Inr ()
   \<and> \<not> isConnected (snd (cleanup sample_env (Inr ''{}'') None ready_client))"
proof -
  let ?fresh = "perform sample_env (Client sample_config (JNum 500)) (DoConnect None (Inr ''{}''))"
  have fresh: "\<not> isConnected ?fresh"
    and ready: "isConnected (perform sample_env ?fresh (DoWaitUntilReady (Inr ''{}'')))"
    and reply: "sendAction_settle sample_env (Ready sample_env) (Inr ''{}'') = Inr (JObj [])"
    and completes: "fst (cleanup sample_env (Inr ''{}'') None ready_client) = Inr ()"
    and no_crash: "\<not> truthy (pandingAppCrash ready_client)"
    by (simp_all add: example_defs method_defs transport_defs)
  from connected_flag_lifecycle
         [of sample_config "JNum 500" ?fresh sample_env "DoWaitUntilReady (Inr ''{}'')" "Inr ''{}''" None]
       connected_flag_lifecycle
         [of sample_config "JNum 500" ready_client sample_env "DoWaitUntilReady (Inr ''{}'')" "Inr ''{}''" None]
       fresh ready reply completes no_crash
  show ?thesis by simp
qed

text \<open>
  C5 as the spec words it, that the flag is false after any completed \<open>cleanup\<close>,
  does not hold with a crash pending: \<open>cleanup\<close> completes and the flag is still true.
\<close>

theorem cleanup_after_crash_counterexample:
  "fst (cleanup sample_env (Inr ''{}'') None crashed_client) = Inr ()
   \<and> isConnected (snd (cleanup sample_env (Inr ''{}'') None crashed_client))"
  by (simp add: example_defs method_defs transport_defs)

section \<open>Invocations\<close>

text \<open>
  C2, as the code has it: for every producer \<open>f\<close> passed to \<open>execute\<close>: if \<open>f\<close> returns a
  value \<open>v\<close>, \<open>execute\<close> does what it does for the ready value \<open>v\<close>: it resolves to the
  \<open>Invoke\<close> action's interpreted result for \<open>v\<close> when the exchange succeeds, and when the
  exchange fails it rejects with the sanitized error and the run-success flag becomes
  false. If \<open>f\<close> throws, \<open>execute\<close> rejects with what \<open>f\<close> threw, as it was thrown, and
  the client, its run-success flag included, is left as it was.
\<close>

theorem execute_with_producer:
  "(f () = Inr v \<longrightarrow>
      execute E (Producer f) out c = execute E (Value v) out c
      \<and> (case sendAction_settle E (Invoke E v) out of
            Inr r \<Rightarrow> fst (execute E (Producer f) out c) = Inr r
                       \<and> successfulTestRun (snd (execute E (Producer f) out c))
                           = successfulTestRun c
          | Inl err \<Rightarrow> fst (execute E (Producer f) out c)
                           = Inl (removeInternalStackEntries E (asError E err))
                         \<and> \<not> successfulTestRun (snd (execute E (Producer f) out c))))
   \<and> (f () = Inl e \<longrightarrow> execute E (Producer f) out c = (Inl e, c))"
proof (intro conjI impI)
  assume "f () = Inl e"
  then show "execute E (Producer f) out c = (Inl e, c)"
    by (simp add: execute_producer_throws)
next
  assume "f () = Inr v"
  then show "execute E (Producer f) out c = execute E (Value v) out c"
    by (simp add: execute_def execute_begin_def)
next
  assume v: "f () = Inr v"
  show "case sendAction_settle E (Invoke E v) out of
          Inr r \<Rightarrow> fst (execute E (Producer f) out c) = Inr r
                     \<and> successfulTestRun (snd (execute E (Producer f) out c))
                         = successfulTestRun c
        | Inl err \<Rightarrow> fst (execute E (Producer f) out c)
                         = Inl (removeInternalStackEntries E (asError E err))
                       \<and> \<not> successfulTestRun (snd (execute E (Producer f) out c))"
  proof (cases "sendAction_settle E (Invoke E v) out")
    case (Inl err)
    with v show ?thesis
      using execute_rejects [of "Producer f" v E out err c] by simp
  next
    case (Inr r)
    with v show ?thesis
      using execute_resolves [of "Producer f" v E out r c] by simp
  qed
qed

theorem execute_with_producer_witness:
  "fst (execute sample_env (Producer (\<lambda>u. Inr (JStr ''tap''))) (Inr ''{}'') ready_client)
     = Inr (JObj [])
   \<and> fst (execute sample_env (Producer (\<lambda>u. Inr (JStr ''tap''))) (Inr ''null'') ready_client)
       = Inl (JsError ''Error'' ''app-side error'' [External ''test''])
   \<and> \<not> successfulTestRun
         (snd (execute sample_env (Producer (\<lambda>u. Inr (JStr ''tap''))) (Inr ''null'') ready_client))
   \<and> execute sample_env (Producer failing_producer) (Inr ''{}'') ready_client
       = (Inl (JsError ''Error'' ''no such matcher'' [Internal ''invoke'', External ''test'']),
          ready_client)"
proof -
  have ok: "sendAction_settle sample_env (Invoke sample_env (JStr ''tap'')) (Inr ''{}'')
              = Inr (JObj [])"
    and failed: "sendAction_settle sample_env (Invoke sample_env (JStr ''tap'')) (Inr ''null'')
              = Inl (JsError ''Error'' ''app-side error'' [Internal ''sendAction'', External ''test''])"
    and sanitized: "removeInternalStackEntries sample_env (asError sample_env
                (JsError ''Error'' ''app-side error'' [Internal ''sendAction'', External ''test'']))
              = JsError ''Error'' ''app-side error'' [External ''test'']"
    and throws: "failing_producer ()
              = Inl (JsError ''Error'' ''no such matcher'' [Internal ''invoke'', External ''test''])"
    by (simp_all add: sendAction_settle_def sample_env_def sample_parse_def failing_producer_def)
  have returns: "(\<lambda>u::unit. Inr (JStr ''tap'') :: exn + json) () = Inr (JStr ''tap'')"
    by simp
  from returns execute_with_producer
         [of "\<lambda>u. Inr (JStr ''tap'')" "JStr ''tap''" sample_env "Inr ''{}''" ready_client]
  have "case sendAction_settle sample_env (Invoke sample_env (JStr ''tap'')) (Inr ''{}'') of
          Inr r \<Rightarrow> fst (execute sample_env (Producer (\<lambda>u. Inr (JStr ''tap''))) (Inr ''{}'')
                          ready_client) = Inr r
                     \<and> successfulTestRun (snd (execute sample_env
                          (Producer (\<lambda>u. Inr (JStr ''tap''))) (Inr ''{}'') ready_client))
                         = successfulTestRun ready_client
        | Inl err \<Rightarrow> fst (execute sample_env (Producer (\<lambda>u. Inr (JStr ''tap''))) (Inr ''{}'')
                            ready_client)
                         = Inl (removeInternalStackEntries sample_env (asError sample_env err))
                       \<and> \<not> successfulTestRun (snd (execute sample_env
                            (Producer (\<lambda>u. Inr (JStr ''tap''))) (Inr ''{}'') ready_client))"
    by blast
  with ok have resolves:
    "fst (execute sample_env (Producer (\<lambda>u. Inr (JStr ''tap''))) (Inr ''{}'') ready_client)
       = Inr (JObj [])"
    by simp
  from returns execute_with_producer
         [of "\<lambda>u. Inr (JStr ''tap'')" "JStr ''tap''" sample_env "Inr ''null''" ready_client]
  have "case sendAction_settle sample_env (Invoke sample_env (JStr ''tap'')) (Inr ''null'') of
          Inr r \<Rightarrow> fst (execute sample_env (Producer (\<lambda>u. Inr (JStr ''tap''))) (Inr ''null'')
                          ready_client) = Inr r
                     \<and> successfulTestRun (snd (execute sample_env
                          (Producer (\<lambda>u. Inr (JStr ''tap''))) (Inr ''null'') ready_client))
                         = successfulTestRun ready_client
        | Inl err \<Rightarrow> fst (execute sample_env (Producer (\<lambda>u. Inr (JStr ''tap''))) (Inr ''null'')
                            ready_client)
                         = Inl (removeInternalStackEntries sample_env (asError sample_env err))
                       \<and> \<not> successfulTestRun (snd (execute sample_env
                            (Producer (\<lambda>u. Inr (JStr ''tap''))) (Inr ''null'') ready_client))"
    by blast
  with failed sanitized have rejects:
    "fst (execute sample_env (Producer (\<lambda>u. Inr (JStr ''tap''))) (Inr ''null'') ready_client)
       = Inl (JsError ''Error'' ''app-side error'' [External ''test''])"
    "\<not> successfulTestRun
        (snd (execute sample_env (Producer (\<lambda>u. Inr (JStr ''tap''))) (Inr ''null'') ready_client))"
    by simp_all
  from throws execute_with_producer
         [of failing_producer _ sample_env "Inr ''{}''" ready_client
             "JsError ''Error'' ''no such matcher'' [Internal ''invoke'', External ''test'']"]
  have "execute sample_env (Producer failing_producer) (Inr ''{}'') ready_client
       = (Inl (JsError ''Error'' ''no such matcher'' [Internal ''invoke'', External ''test'']),
          ready_client)"
    by blast
  with resolves rejects show ?thesis by blast
qed

text \<open>
  C2 as the spec words it, that a throwing producer makes \<open>execute\<close> reject with a
  sanitized error and clears the run-success flag, does not hold: the error arrives with
  its internal frames, which sanitizing would strip, and the flag is still true.
\<close>

theorem execute_throwing_producer_counterexample:
  "fst (execute sample_env (Producer failing_producer) (Inr ''{}'') ready_client)
     = Inl (JsError ''Error'' ''no such matcher'' [Internal ''invoke'', External ''test''])
   \<and> removeInternalStackEntries sample_env (asError sample_env
         (JsError ''Error'' ''no such matcher'' [Internal ''invoke'', External ''test'']))
       = JsError ''Error'' ''no such matcher'' [External ''test'']
   \<and> successfulTestRun
         (snd (execute sample_env (Producer failing_producer) (Inr ''{}'') ready_client))"
  by (simp add: example_defs method_defs transport_defs)

text \<open>
  C8, as the code has it: the run-success flag is true at construction; it becomes false
  when the dispatched \<open>Invoke\<close> action fails, and nothing sets it again; when \<open>execute\<close>
  fails because its producer throws, before anything is dispatched, the flag is left as
  it was; \<open>cleanup\<close> parameterizes the cleanup action it sends with the flag's current
  value; and a failed \<open>execute\<close> does not keep \<open>cleanup\<close> from running: it changes
  neither the connected flag nor the pending crash, so on a connected client with no
  crash pending and the channel still open the cleanup action goes out after it, with
  the value the flag then has.
\<close>

theorem successfulTestRun_lifecycle:
  "successfulTestRun (Client config timeout)
   \<and> (produce arg = Inr v \<and> sendAction_settle E (Invoke E v) out = Inl err \<longrightarrow>
        \<not> successfulTestRun (snd (execute E arg out c)))
   \<and> (produce arg = Inl e \<longrightarrow>
        fst (execute E arg out c) = Inl e
        \<and> successfulTestRun (snd (execute E arg out c)) = successfulTestRun c)
   \<and> (\<not> successfulTestRun c \<longrightarrow> \<not> successfulTestRun (perform E c k))
   \<and> (isConnected c \<and> \<not> truthy (pandingAppCrash c) \<and> ws_isOpen (ws c) \<longrightarrow>
        sent (ws (snd (cleanup E out' closing c)))
          = sent (ws c) @ [Cleanup E (successfulTestRun c)])
   \<and> isConnected (snd (execute E arg out c)) = isConnected c
   \<and> pandingAppCrash (snd (execute E arg out c)) = pandingAppCrash c
   \<and> (isConnected c \<and> \<not> truthy (pandingAppCrash c)
        \<and> ws_isOpen (ws (snd (execute E arg out c))) \<longrightarrow>
        sent (ws (snd (cleanup E out' closing (snd (execute E arg out c)))))
          = sent (ws (snd (execute E arg out c)))
              @ [Cleanup E (successfulTestRun (snd (execute E arg out c)))])"
proof -
  let ?c1 = "snd (execute E arg out c)"
  have after: "sent (ws (snd (cleanup E out' closing ?c1)))
                 = sent (ws ?c1) @ [Cleanup E (successfulTestRun ?c1)]"
    if "isConnected c" and "\<not> truthy (pandingAppCrash c)" and "ws_isOpen (ws ?c1)"
  proof -
    from that have "isConnected ?c1" "\<not> truthy (pandingAppCrash ?c1)" "ws_isOpen (ws ?c1)"
      by (simp_all add: execute_keeps_cleanup_guards)
    then show ?thesis by (rule cleanup_sends)
  qed
  have thrown: "fst (execute E arg out c) = Inl e
                  \<and> successfulTestRun (snd (execute E arg out c)) = successfulTestRun c"
    if "produce arg = Inl e"
    using that by (simp add: execute_producer_throws)
  show ?thesis
    using after thrown execute_rejects [of arg v E out err c] perform_keeps_failed [of c E k]
      cleanup_sends [of c E out' closing] execute_keeps_cleanup_guards [of E arg out c]
    by (simp add: Client_def)
qed

theorem successfulTestRun_lifecycle_witness:
  "successfulTestRun (Client sample_config (JNum 500))
   \<and> \<not> successfulTestRun (snd (execute sample_env (Value (JStr ''tap'')) (Inr ''null'') ready_client))
   \<and> successfulTestRun
        (snd (execute sample_env (Producer failing_producer) (Inr ''{}'') ready_client))
   \<and> \<not> successfulTestRun
         (perform sample_env
            (snd (execute sample_env (Value (JStr ''tap'')) (Inr ''null'') ready_client))
            (DoExecute (Value (JStr ''tap'')) (Inr ''{}'')))
   \<and> sent (ws (snd (cleanup sample_env (Inr ''{}'') None ready_client)))
       = sent (ws ready_client) @ [\<lparr>messageId = 3, type = ''cleanup'', params = JBool True\<rparr>]
   \<and> sent (ws (snd (cleanup sample_env (Inr ''{}'') None
                      (snd (execute sample_env (Value (JStr ''tap'')) (Inr ''null'') ready_client)))))
       = sent (ws ready_client)
           @ [\<lparr>messageId = 5, type = ''invoke'', params = JStr ''tap''\<rparr>,
              \<lparr>messageId = 3, type = ''cleanup'', params = JBool False\<rparr>]"
proof -
  let ?failed = "snd (execute sample_env (Value (JStr ''tap'')) (Inr ''null'') ready_client)"
  let ?err = "JsError ''Error'' ''app-side error'' [Internal ''sendAction'', External ''test'']"
  let ?thrown = "JsError ''Error'' ''no such matcher'' [Internal ''invoke'', External ''test'']"
  have ready: "isConnected ready_client" "\<not> truthy (pandingAppCrash ready_client)"
    "ws_isOpen (ws ready_client)" "successfulTestRun ready_client"
    by (simp_all add: example_defs method_defs transport_defs)
  have still_open: "ws_isOpen (ws ?failed)"
    and sent_failed: "sent (ws ?failed) = sent (ws ready_client) @ [Invoke sample_env (JStr ''tap'')]"
    by (simp_all add: example_defs method_defs transport_defs)
  have failed: "sendAction_settle sample_env (Invoke sample_env (JStr ''tap'')) (Inr ''null'')
      = Inl ?err"
    by (simp add: sendAction_settle_def sample_env_def sample_parse_def)
  have throws: "produce (Producer failing_producer) = Inl ?thrown"
    by (simp add: failing_producer_def)
  have actions: "Cleanup sample_env True = \<lparr>messageId = 3, type = ''cleanup'', params = JBool True\<rparr>"
    "Cleanup sample_env False = \<lparr>messageId = 3, type = ''cleanup'', params = JBool False\<rparr>"
    "Invoke sample_env (JStr ''tap'') = \<lparr>messageId = 5, type = ''invoke'', params = JStr ''tap''\<rparr>"
    by (simp_all add: sample_env_def)
  have first: "\<not> successfulTestRun ?failed"
    and last: "sent (ws (snd (cleanup sample_env (Inr ''{}'') None ?failed)))
       = sent (ws ?failed) @ [Cleanup sample_env (successfulTestRun ?failed)]"
    and sends: "sent (ws (snd (cleanup sample_env (Inr ''{}'') None ready_client)))
       = sent (ws ready_client) @ [Cleanup sample_env (successfulTestRun ready_client)]"
    and start: "successfulTestRun (Client sample_config (JNum 500))"
    using successfulTestRun_lifecycle
        [of sample_config "JNum 500" "Value (JStr ''tap'')" "JStr ''tap''" sample_env
            "Inr ''null''" ?err ready_client _ "DoExecute (Value (JStr ''tap'')) (Inr ''{}'')"
            "Inr ''{}''" None]
      ready failed still_open
    by simp_all
  have stays: "\<not> successfulTestRun (perform sample_env ?failed (DoExecute (Value (JStr ''tap'')) (Inr ''{}'')))"
    using successfulTestRun_lifecycle
        [of sample_config "JNum 500" "Value (JStr ''tap'')" "JStr ''tap''" sample_env
            "Inr ''null''" ?err ?failed _ "DoExecute (Value (JStr ''tap'')) (Inr ''{}'')"
            "Inr ''{}''" None]
      first
    by blast
  have kept: "successfulTestRun
        (snd (execute sample_env (Producer failing_producer) (Inr ''{}'') ready_client))"
    using successfulTestRun_lifecycle
        [of sample_config "JNum 500" "Producer failing_producer" _ sample_env
            "Inr ''{}''" _ ready_client ?thrown]
      throws ready(4)
    by simp
  from first last sends start stays kept ready(4) sent_failed actions show ?thesis
    by simp
qed

text \<open>
  C8 as the spec words it, that any invocation failure clears the flag, does not hold
  for an \<open>execute\<close> that fails because its producer throws: the flag is still true, and
  the cleanup that follows sends the cleanup action parameterized with true.
\<close>

theorem execute_failure_keeps_flag_counterexample:
  "fst (execute sample_env (Producer failing_producer) (Inr ''{}'') ready_client)
     = Inl (JsError ''Error'' ''no such matcher'' [Internal ''invoke'', External ''test''])
   \<and> sent (ws (snd (cleanup sample_env (Inr ''{}'') None
                      (snd (execute sample_env (Producer failing_producer) (Inr ''{}'')
                              ready_client)))))
       = sent (ws ready_client) @ [\<lparr>messageId = 3, type = ''cleanup'', params = JBool True\<rparr>]"
  by (simp add: example_defs method_defs transport_defs)

section \<open>The diagnostics dump\<close>

text \<open>
  C6: \<open>dumpPendingRequests\<close> leaves status queries out of its report. Whenever a request
  other than a status query is in flight, the warning is the heading, one line for each
  in-flight request that is not a status query (its id, kind and params) and the
  closing note, and the in-flight bookkeeping is empty afterwards. The example has a
  login, a status query and an invocation in flight: the warning lists the login and
  the invocation only.
\<close>

theorem dumpPendingRequests_lists_all_but_status:
  assumes "\<exists>e \<in> set (inFlightPromises (ws c)). type (snd e) \<noteq> ''currentStatus''"
  shows "fst (dumpPendingRequests E testName c)
           = Some (''App has not responded to the network requests below:''
                   @ concat (map (pending_line E)
                       (filter (\<lambda>m. type m \<noteq> ''currentStatus'')
                          (map snd (inFlightPromises (ws c)))))
                   @ [newline, newline] @ notice testName @ [newline])
         \<and> (\<forall>m \<in> set (pending_messages c). type m \<noteq> ''currentStatus'')
         \<and> inFlightPromises (ws (snd (dumpPendingRequests E testName c))) = []"
proof -
  from assms have "pending_messages c \<noteq> []"
    by (auto simp: pending_messages_def filter_empty_conv)
  then show ?thesis
    by (simp add: dumpPendingRequests_def Let_def dump_lines ws_resetInFlightPromises_def)
      (simp add: pending_messages_def)
qed

theorem dumpPendingRequests_lists_all_but_status_witness:
  "map (\<lambda>e. type (snd e)) (inFlightPromises (ws three_pending))
     = [''login'', ''currentStatus'', ''invoke'']
   \<and> fst (dumpPendingRequests sample_env (Some ''taps the button'') three_pending)
       = Some (''App has not responded to the network requests below:''
               @ [newline] @ ''  (id = 1) login: '' @ [CHR 0x22] @ ''s1'' @ [CHR 0x22]
               @ [newline] @ ''  (id = 5) invoke: '' @ [CHR 0x22] @ ''tap'' @ [CHR 0x22]
               @ [newline, newline]
               @ ''That might be the reason why the test '' @ [CHR 0x22] @ ''taps the button''
               @ [CHR 0x22] @ '' has timed out.'' @ [newline])
   \<and> inFlightPromises (ws (snd (dumpPendingRequests sample_env (Some ''taps the button'')
                                    three_pending))) = []"
proof -
  have pending: "inFlightPromises (ws three_pending)
      = [(1, \<lparr>messageId = 1, type = ''login'', params = JStr ''s1''\<rparr>),
         (4, \<lparr>messageId = 4, type = ''currentStatus'', params = JObj []\<rparr>),
         (5, \<lparr>messageId = 5, type = ''invoke'', params = JStr ''tap''\<rparr>)]"
    by (simp add: example_defs method_defs transport_defs)
  then have some: "\<exists>e \<in> set (inFlightPromises (ws three_pending)). type (snd e) \<noteq> ''currentStatus''"
    by simp
  have lines: "pending_line sample_env \<lparr>messageId = 1, type = ''login'', params = JStr ''s1''\<rparr>
        = [newline] @ ''  (id = 1) login: '' @ [CHR 0x22] @ ''s1'' @ [CHR 0x22]"
    "pending_line sample_env \<lparr>messageId = 5, type = ''invoke'', params = JStr ''tap''\<rparr>
        = [newline] @ ''  (id = 5) invoke: '' @ [CHR 0x22] @ ''tap'' @ [CHR 0x22]"
    by (simp_all add: pending_line_def sample_env_def show_int_def digits.simps digit_char_def
        quoted_def)
  have closing: "notice (Some ''taps the button'')
        = ''That might be the reason why the test '' @ [CHR 0x22] @ ''taps the button''
          @ [CHR 0x22] @ '' has timed out.''"
    by (simp add: notice_def)
  from dumpPendingRequests_lists_all_but_status
         [OF some, of sample_env "Some ''taps the button''"] pending lines closing
  show ?thesis by simp
qed

text \<open>
  C10: when every in-flight entry is a status query, \<open>dumpPendingRequests\<close> emits no
  warning and changes nothing: the status entries are still in flight after the call.
\<close>

theorem dumpPendingRequests_status_only:
  assumes "\<forall>e \<in> set (inFlightPromises (ws c)). type (snd e) = ''currentStatus''"
  shows "fst (dumpPendingRequests E testName c) = None
         \<and> snd (dumpPendingRequests E testName c) = c
         \<and> inFlightPromises (ws (snd (dumpPendingRequests E testName c)))
             = inFlightPromises (ws c)"
proof -
  from assms have "pending_messages c = []"
    by (auto simp: pending_messages_def filter_empty_conv)
  then show ?thesis
    by (simp add: dumpPendingRequests_def)
qed

theorem dumpPendingRequests_status_only_witness:
  "inFlightPromises (ws status_pending)
     = [(4, \<lparr>messageId = 4, type = ''currentStatus'', params = JObj []\<rparr>)]
   \<and> fst (dumpPendingRequests sample_env None status_pending) = None
   \<and> inFlightPromises (ws (snd (dumpPendingRequests sample_env None status_pending)))
       = [(4, \<lparr>messageId = 4, type = ''currentStatus'', params = JObj []\<rparr>)]"
proof -
  have pending: "inFlightPromises (ws status_pending)
      = [(4, \<lparr>messageId = 4, type = ''currentStatus'', params = JObj []\<rparr>)]"
    by (simp add: example_defs method_defs transport_defs)
  then have only: "\<forall>e \<in> set (inFlightPromises (ws status_pending)). type (snd e) = ''currentStatus''"
    by simp
  from dumpPendingRequests_status_only [OF only, of sample_env None] pending
  show ?thesis by simp
qed

section \<open>The watchdog\<close>

text \<open>
  C7: once an invocation that armed the watchdog has settled, no watchdog timer should
  remain scheduled and no further status query should be sent on its behalf. The
  \<open>finally\<close> of \<open>execute\<close> achieves this when nothing runs between its two parts
  (\<open>execute_disarms\<close>), but not on the run \<open>watchdog_race\<close>. There the invocation arms
  timer 0; the timer fires and the callback sends a status query; the invocation's reply
  arrives and \<open>execute\<close> settles, its \<open>finally\<close> clearing handle 0, which has already
  fired; then the status reply arrives and the callback schedules timer 1. No timer is
  scheduled when the invocation settles, yet timer 1 is scheduled afterwards with
  nothing in flight, and when timer 1 fires a further status query is sent.
\<close>

theorem watchdog_outlives_invocation:
  "timers (foldl (perform sample_env) ready_client (take 3 watchdog_race)) = []
   \<and> slowInvocationStatusHandler (foldl (perform sample_env) ready_client (take 3 watchdog_race))
       = Some 0
   \<and> timers (foldl (perform sample_env) ready_client watchdog_race) = [1]
   \<and> inFlightPromises (ws (foldl (perform sample_env) ready_client watchdog_race)) = []
   \<and> sent (ws (perform sample_env (foldl (perform sample_env) ready_client watchdog_race)
                  (TimerFires 1)))
       = sent (ws (foldl (perform sample_env) ready_client watchdog_race))
           @ [CurrentStatus sample_env]"
  by (simp add: example_defs method_defs transport_defs)

end
